theory Spec2Isabelle
  imports Main
begin

text \<open>
  A shallow embedding of the news aggregator: the three fetchers (\<open>openai_news.py\<close>,
  \<open>smol_ai.py\<close>, \<open>youtube.py\<close>) and the runner (\<open>runner.py\<close>). Functions keep the
  names of the source, without the leading underscore of the private ones. A function
  that can raise returns \<open>exn + 'a\<close>, with \<open>Inl\<close> for the exception; logging is left out.
\<close>

section \<open>Strings\<close>

text \<open>
  A Python \<open>str\<close> is modelled as a \<open>string\<close>, each \<open>char\<close> standing for the code point
  of the same number (code points below 256). The character classes below are the ones
  Python's \<open>str.isspace\<close> and the \<open>re\<close> module's \<open>\w\<close> have on that range.
\<close>

definition newline :: char where
  "newline = CHR 0x0A"

definition py_isspace :: "char \<Rightarrow> bool" where
  \<comment> \<open>\<open>str.isspace\<close>: tab to carriage return, the four separators FS..US, space, NEL, NBSP.\<close>
  "py_isspace c =
     (let n = of_char c :: nat
      in (9 \<le> n \<and> n \<le> 13) \<or> (28 \<le> n \<and> n \<le> 32) \<or> n = 133 \<or> n = 160)"

definition py_isalnum :: "char \<Rightarrow> bool" where
  \<comment> \<open>\<open>str.isalnum\<close>: ASCII digits and letters, and the letters and numerics of Latin-1.\<close>
  "py_isalnum c =
     (let n = of_char c :: nat
      in (48 \<le> n \<and> n \<le> 57) \<or> (65 \<le> n \<and> n \<le> 90) \<or> (97 \<le> n \<and> n \<le> 122)
         \<or> n = 170 \<or> n = 178 \<or> n = 179 \<or> n = 181 \<or> n = 185 \<or> n = 186
         \<or> (188 \<le> n \<and> n \<le> 190) \<or> (192 \<le> n \<and> n \<le> 214)
         \<or> (216 \<le> n \<and> n \<le> 246) \<or> (248 \<le> n \<and> n \<le> 255))"

definition strip :: "string \<Rightarrow> string" where
  \<comment> \<open>\<open>str.strip()\<close>: whitespace removed at both ends.\<close>
  "strip s = rev (dropWhile py_isspace (rev (dropWhile py_isspace s)))"

definition startswith :: "string \<Rightarrow> string \<Rightarrow> bool" where
  "startswith s p = (take (length p) s = p)"

fun join :: "string \<Rightarrow> string list \<Rightarrow> string" where
  \<comment> \<open>\<open>sep.join(parts)\<close>\<close>
  "join sep [] = []"
| "join sep [p] = p"
| "join sep (p # q # ps) = p @ sep @ join sep (q # ps)"

section \<open>The HTML sanitizer\<close>

text \<open>
  \<open>_strip_html\<close> is the same function, line for line, in \<open>openai_news.py\<close> and in
  \<open>smol_ai.py\<close>:
  \<^verbatim>\<open>
  text = BeautifulSoup(raw, "html.parser").get_text(separator=" ")
  text = re.sub(r"[ \t]+", " ", text)
  text = re.sub(r"\n{3,}", "\n\n", text)
  return text.strip()
  \<close>
  The parser belongs to a library outside the repository: \<open>strip_html\<close> takes the function
  from markup to the text nodes of the parsed document as its first argument.
\<close>

definition is_blank :: "char \<Rightarrow> bool" where
  \<comment> \<open>the character class \<open>[ \t]\<close>\<close>
  "is_blank c = (c = CHR '' '' \<or> c = CHR 0x09)"

function sub_blanks :: "string \<Rightarrow> string" where
  \<comment> \<open>\<open>re.sub(r"[ \t]+", " ", text)\<close>: every maximal run of blanks becomes one space.\<close>
  "sub_blanks [] = []"
| "sub_blanks (c # cs) =
     (if is_blank c then CHR '' '' # sub_blanks (dropWhile is_blank cs)
      else c # sub_blanks cs)"
  by pat_completeness auto
termination
  by (relation "measure length") (auto simp: less_Suc_eq_le length_dropWhile_le)

function sub_newlines :: "string \<Rightarrow> string" where
  \<comment> \<open>\<open>re.sub(r"\n{3,}", "\n\n", text)\<close>: every maximal run of three or more newlines
      becomes two; shorter runs stay.\<close>
  "sub_newlines [] = []"
| "sub_newlines (c # cs) =
     (if c = newline \<and> 2 \<le> length (takeWhile (\<lambda>d. d = newline) cs)
      then newline # newline # sub_newlines (dropWhile (\<lambda>d. d = newline) cs)
      else c # sub_newlines cs)"
  by pat_completeness auto
termination
  by (relation "measure length") (auto simp: less_Suc_eq_le length_dropWhile_le)

definition get_text :: "string \<Rightarrow> string list \<Rightarrow> string" where
  \<comment> \<open>\<open>soup.get_text(separator=sep)\<close>: the text nodes, joined by the separator.\<close>
  "get_text sep nodes = join sep nodes"

definition strip_html :: "(string \<Rightarrow> string list) \<Rightarrow> string \<Rightarrow> string" where
  "strip_html soup raw =
     (let text = get_text '' '' (soup raw);
          text = sub_blanks text;
          text = sub_newlines text
      in strip text)"

text \<open>
  Modelled from the spec: the parser behind the sanitizer (BeautifulSoup over
  \<open>html.parser\<close>, a library that is not part of the repository). The spec says of it
  "tags removed, entity-decoded by the underlying parser". The model covers text with
  plain tags \<open><...>\<close> (no comments, scripts or preformatted blocks) and the entities
  \<open>amp\<close>, \<open>lt\<close>, \<open>gt\<close> and \<open>quot\<close>: the text between two tags is one node, an empty
  stretch is no node, and a node made of ASCII whitespace only is kept as a single newline
  if it holds one and a single space otherwise, which is what the library's tree builder
  does with it.
\<close>

definition html_entities :: "(string \<times> char) list" where
  "html_entities =
     [(''amp;'', CHR ''&''), (''lt;'', CHR ''<''), (''gt;'', CHR ''>''), (''quot;'', CHR 0x22)]"

function decode_entities :: "string \<Rightarrow> string" where
  "decode_entities [] = []"
| "decode_entities (c # cs) =
     (if c = CHR ''&'' then
        (case find (\<lambda>(n, _). startswith cs n) html_entities of
           Some (n, d) \<Rightarrow> d # decode_entities (drop (length n) cs)
         | None \<Rightarrow> c # decode_entities cs)
      else c # decode_entities cs)"
  by pat_completeness auto
termination
  by (relation "measure length") auto

definition ascii_space :: "char \<Rightarrow> bool" where
  "ascii_space c = (c = CHR '' '' \<or> c = newline \<or> c = CHR 0x09 \<or> c = CHR 0x0C \<or> c = CHR 0x0D)"

definition end_data :: "string \<Rightarrow> string list" where
  \<comment> \<open>closes the text collected since the last tag\<close>
  "end_data cur =
     (if cur = [] then []
      else if list_all ascii_space cur then (if newline \<in> set cur then [[newline]] else ['' ''])
      else [cur])"

fun text_nodes :: "bool \<Rightarrow> string \<Rightarrow> string \<Rightarrow> string list" where
  \<comment> \<open>\<open>text_nodes in_tag cur input\<close>: \<open>cur\<close> is the text read since the last tag\<close>
  "text_nodes in_tag cur [] = end_data (decode_entities cur)"
| "text_nodes True cur (c # cs) =
     (if c = CHR ''>'' then text_nodes False [] cs else text_nodes True cur cs)"
| "text_nodes False cur (c # cs) =
     (if c = CHR ''<'' then end_data (decode_entities cur) @ text_nodes True [] cs
      else text_nodes False (cur @ [c]) cs)"

definition html_parser :: "string \<Rightarrow> string list" where
  "html_parser raw = text_nodes False [] raw"

section \<open>Data model\<close>

text \<open>
  A \<open>datetime\<close> is a timezone-aware UTC instant, counted in microseconds from the epoch;
  \<open>\<le>\<close> on instants is the order Python compares aware datetimes by. The range limits of
  Python's \<open>datetime\<close> (years 1 to 9999) are not modelled.
\<close>

type_synonym datetime = int

text \<open>
  Exceptions keep their class and the URL, channel or text they are about; the wording of
  the messages is not modelled. \<open>OtherException\<close> stands for any other subclass of
  \<open>Exception\<close>.
\<close>

datatype exn =
    ValueError string
  | RuntimeError string
  | HTTPStatusError nat
  | RequestError string
  | NoTranscriptFound
  | TranscriptsDisabled
  | VideoUnavailable
  | OtherException string

text \<open>
  A feed item is the dictionary the feed library returns for one entry. Each key the
  fetchers read is a field; \<open>None\<close> is a key that is absent (or holds \<open>None\<close>).
  \<open>published_parsed\<close> holds the instant its \<open>struct_time\<close> denotes, and \<open>item_content\<close>
  the \<open>value\<close> of each element of the \<open>content\<close> list.
\<close>

record item =
  link :: "string option"
  item_title :: "string option"
  published_parsed :: "datetime option"
  published :: "string option"
  summary :: "string option"
  item_content :: "string option list"
  yt_videoid :: "string option"
  media_description :: "string option"

record feed =
  bozo :: bool
  entries :: "item list"

record snippet =
  snippet_text :: "string option"

text \<open>
  \<open>OpenAINewsEntry\<close> and \<open>SmolAIEntry\<close> are two classes with the same five fields; both are
  the record \<open>feed_entry\<close>, told apart by the constructor of \<open>entry\<close> that wraps them.
\<close>

record feed_entry =
  post_id :: string
  title :: string
  url :: string
  published_at :: datetime
  content :: "string option"

record VideoEntry =
  video_id :: string
  video_title :: string
  video_url :: string
  video_published_at :: datetime
  description :: "string option"
  transcript :: "string option"

datatype entry =
    Video VideoEntry
  | OpenAINews feed_entry
  | SmolAI feed_entry

text \<open>
  Everything the program reads from outside: the feed library (\<open>feedparser.parse\<close>), the
  HTTP client (\<open>httpx.get\<close> followed by \<open>raise_for_status\<close>; \<open>Inr\<close> is the body of a
  successful response), the transcript backend, the clock, the RFC 2822 date parser
  (\<open>None\<close> when it raises) and the HTML parser. During one run the same request gets the
  same answer, and the clock, which the code reads again for each item without a date,
  gives one reading.
\<close>

record world =
  feed_parse :: "string \<Rightarrow> exn + feed"
  http_get :: "string \<Rightarrow> exn + string"
  transcript_fetch :: "string \<Rightarrow> exn + snippet list"
  now :: datetime
  parsedate_to_datetime :: "string \<Rightarrow> datetime option"
  soup :: "string \<Rightarrow> string list"

definition or_empty :: "string option \<Rightarrow> string" where
  \<comment> \<open>\<open>d.get(key, "") or ""\<close>\<close>
  "or_empty v = (case v of Some s \<Rightarrow> s | None \<Rightarrow> [])"

definition not_after :: "datetime \<Rightarrow> datetime option \<Rightarrow> bool" where
  \<comment> \<open>\<open>since is not None and published_at <= since\<close>\<close>
  "not_after t since = (case since of None \<Rightarrow> False | Some s \<Rightarrow> t \<le> s)"

section \<open>The RSS news fetcher (\<open>openai_news.py\<close>)\<close>

definition OPENAI_FEED_URL :: string where
  "OPENAI_FEED_URL = ''https://openai.com/news/rss.xml''"

definition parse_pubdate :: "world \<Rightarrow> item \<Rightarrow> datetime" where
  \<comment> \<open>\<open>_parse_pubdate\<close>, the same in \<open>openai_news.py\<close> and \<open>smol_ai.py\<close>\<close>
  "parse_pubdate w i =
     (case published_parsed i of
        Some raw_time \<Rightarrow> raw_time
      | None \<Rightarrow>
          (let raw_str = or_empty (published i)
           in if raw_str \<noteq> [] then
                (case parsedate_to_datetime w raw_str of Some t \<Rightarrow> t | None \<Rightarrow> now w)
              else now w))"

definition sanitized :: "world \<Rightarrow> string \<Rightarrow> string option" where
  \<comment> \<open>\<open>_strip_html(raw_content) if raw_content else None\<close>\<close>
  "sanitized w raw_content =
     (if raw_content \<noteq> [] then Some (strip_html (soup w) raw_content) else None)"

definition openai_entry :: "world \<Rightarrow> item \<Rightarrow> feed_entry" where
  "openai_entry w i =
     (let u = or_empty (link i);
          t = strip (case item_title i of Some s \<Rightarrow> s | None \<Rightarrow> ''Untitled'');
          raw_content = or_empty (summary i)
      in \<lparr>post_id = u, title = t, url = u, published_at = parse_pubdate w i,
          content = sanitized w raw_content\<rparr>)"

fun openai_loop :: "world \<Rightarrow> datetime option \<Rightarrow> feed_entry list \<Rightarrow> item list \<Rightarrow> feed_entry list" where
  \<comment> \<open>the \<open>for item in feed.entries\<close> loop; the third argument is \<open>entries\<close> so far\<close>
  "openai_loop w since acc [] = acc"
| "openai_loop w since acc (i # is) =
     (if not_after (parse_pubdate w i) since then acc
      else openai_loop w since (acc @ [openai_entry w i]) is)"

definition fetch_openai_news :: "world \<Rightarrow> datetime option \<Rightarrow> exn + feed_entry list" where
  "fetch_openai_news w since =
     (case feed_parse w OPENAI_FEED_URL of
        Inl exc \<Rightarrow> Inr []
      | Inr f \<Rightarrow>
          if entries f = [] then Inr []
          else Inr (openai_loop w since [] (entries f)))"

section \<open>The newsletter fetcher (\<open>smol_ai.py\<close>)\<close>

definition SMOL_FEED_URL :: string where
  "SMOL_FEED_URL = ''https://news.smol.ai/rss.xml''"

definition smol_raw_content :: "item \<Rightarrow> string" where
  \<comment> \<open>content priority: \<open>content[0].value\<close>, then \<open>summary\<close>\<close>
  "smol_raw_content i =
     (let raw_content = (case item_content i of [] \<Rightarrow> [] | v # _ \<Rightarrow> or_empty v)
      in if raw_content = [] then or_empty (summary i) else raw_content)"

definition smol_entry :: "world \<Rightarrow> item \<Rightarrow> feed_entry" where
  "smol_entry w i =
     (let u = or_empty (link i);
          t = (case item_title i of Some s \<Rightarrow> s | None \<Rightarrow> ''Untitled'')
      in \<lparr>post_id = u, title = t, url = u, published_at = parse_pubdate w i,
          content = sanitized w (smol_raw_content i)\<rparr>)"

definition fetch_latest_smol_ai_issue :: "world \<Rightarrow> exn + feed_entry list" where
  "fetch_latest_smol_ai_issue w =
     (case feed_parse w SMOL_FEED_URL of
        Inl exc \<Rightarrow> Inr []
      | Inr f \<Rightarrow>
          (case entries f of
             [] \<Rightarrow> Inr []
           | i # _ \<Rightarrow> Inr [smol_entry w i]))"

section \<open>The video fetcher (\<open>youtube.py\<close>)\<close>

subsection \<open>Channel resolution\<close>

definition id_char :: "char \<Rightarrow> bool" where
  \<comment> \<open>the character class \<open>[\w-]\<close>\<close>
  "id_char c = (py_isalnum c \<or> c = CHR ''_'' \<or> c = CHR ''-'')"

definition CHANNEL_ID_RE_match :: "string \<Rightarrow> bool" where
  \<comment> \<open>\<open>_CHANNEL_ID_RE.match(s)\<close> for \<open>^UC[\w-]{22}$\<close>; \<open>$\<close> also matches before a final
      newline.\<close>
  "CHANNEL_ID_RE_match s =
     (startswith s ''UC'' \<and>
      (let r = drop 2 s
       in 22 \<le> length r \<and> list_all id_char (take 22 r) \<and>
          (drop 22 r = [] \<or> drop 22 r = [newline])))"

fun search_channel_id :: "string \<Rightarrow> string option" where
  \<comment> \<open>\<open>re.search(r"youtube\.com/channel/(UC[\w-]{22})", text)\<close>: group 1 of the leftmost
      match.\<close>
  "search_channel_id [] = None"
| "search_channel_id (c # cs) =
     (let s = c # cs; p = ''youtube.com/channel/''; g = drop (length p) s
      in if startswith s (p @ ''UC'') \<and> 24 \<le> length g \<and> list_all id_char (take 22 (drop 2 g))
         then Some (take 24 g)
         else search_channel_id cs)"

text \<open>
  Fetching a page is an effect. The list of the pages requested so far is threaded through
  the two resolution functions, and \<open>httpx_get\<close>, the call \<open>httpx.get(page_url, ...)\<close> with
  \<open>raise_for_status\<close>, is the only step that gets a reply from the world or adds to that
  list.
\<close>

definition httpx_get :: "world \<Rightarrow> string \<Rightarrow> string list \<Rightarrow> (exn + string) \<times> string list" where
  "httpx_get w page_url requested = (http_get w page_url, requested @ [page_url])"

definition scrape_channel_id ::
  "world \<Rightarrow> string \<Rightarrow> string list \<Rightarrow> (exn + string) \<times> string list" where
  "scrape_channel_id w page_url requested =
     (case httpx_get w page_url requested of
        (Inl (HTTPStatusError code), requested') \<Rightarrow> (Inl (ValueError page_url), requested')
      | (Inl (RequestError msg), requested') \<Rightarrow> (Inl (ValueError page_url), requested')
      | (Inl exc, requested') \<Rightarrow> (Inl exc, requested')
      | (Inr response_text, requested') \<Rightarrow>
          (case search_channel_id response_text of
             Some m \<Rightarrow> (Inr m, requested')
           | None \<Rightarrow> (Inl (ValueError page_url), requested')))"

definition resolve_channel_id ::
  "world \<Rightarrow> string \<Rightarrow> string list \<Rightarrow> (exn + string) \<times> string list" where
  "resolve_channel_id w channel_input0 requested =
     (let channel_input = strip channel_input0
      in if CHANNEL_ID_RE_match channel_input then (Inr channel_input, requested)
         else
           (let page_url =
                  (if startswith channel_input ''@''
                   then ''https://www.youtube.com/'' @ channel_input
                   else ''https://www.youtube.com/@'' @ channel_input)
            in scrape_channel_id w page_url requested))"

subsection \<open>Video listing\<close>

definition RSS_URL :: "string \<Rightarrow> string" where
  "RSS_URL channel_id = ''https://www.youtube.com/feeds/videos.xml?channel_id='' @ channel_id"

definition slice_to :: "int \<Rightarrow> 'a list \<Rightarrow> 'a list" where
  \<comment> \<open>\<open>xs[:m]\<close>: a negative bound counts from the end.\<close>
  "slice_to m xs = (if 0 \<le> m then take (nat m) xs else take (nat (int (length xs) + m)) xs)"

definition video_published_at_of :: "world \<Rightarrow> item \<Rightarrow> datetime" where
  "video_published_at_of w i = (case published_parsed i of Some raw_time \<Rightarrow> raw_time | None \<Rightarrow> now w)"

definition video_description :: "item \<Rightarrow> string option" where
  "video_description i =
     (let raw_description =
            (case media_description i of
               Some d \<Rightarrow> if d \<noteq> [] then d else or_empty (summary i)
             | None \<Rightarrow> or_empty (summary i));
          d = strip raw_description
      in if d \<noteq> [] then Some d else None)"

definition video_entry :: "world \<Rightarrow> item \<Rightarrow> VideoEntry" where
  "video_entry w i =
     (let vid = or_empty (yt_videoid i);
          t = (case item_title i of Some s \<Rightarrow> s | None \<Rightarrow> ''Untitled'');
          u = (case link i of Some l \<Rightarrow> l | None \<Rightarrow> ''https://www.youtube.com/watch?v='' @ vid)
      in \<lparr>video_id = vid, video_title = t, video_url = u,
          video_published_at = video_published_at_of w i,
          description = video_description i, transcript = None\<rparr>)"

fun video_loop :: "world \<Rightarrow> datetime option \<Rightarrow> VideoEntry list \<Rightarrow> item list \<Rightarrow> VideoEntry list" where
  \<comment> \<open>the \<open>for item in feed.entries[:max_results]\<close> loop; the third argument is \<open>entries\<close>
      so far\<close>
  "video_loop w since acc [] = acc"
| "video_loop w since acc (i # is) =
     (if not_after (video_published_at_of w i) since then video_loop w since acc is
      else video_loop w since (acc @ [video_entry w i]) is)"

definition fetch_videos :: "world \<Rightarrow> string \<Rightarrow> datetime option \<Rightarrow> int \<Rightarrow> exn + VideoEntry list" where
  "fetch_videos w channel_id since max_results =
     (case feed_parse w (RSS_URL channel_id) of
        Inl exc \<Rightarrow> Inl (RuntimeError channel_id)
      | Inr f \<Rightarrow>
          if bozo f \<and> entries f = [] then Inl (RuntimeError channel_id)
          else Inr (video_loop w since [] (slice_to max_results (entries f))))"

definition max_results_default :: int where
  "max_results_default = 50"

subsection \<open>Transcripts\<close>

fun transcript_parts :: "string list \<Rightarrow> snippet list \<Rightarrow> string list" where
  \<comment> \<open>the \<open>for snippet in snippets\<close> loop; the first argument is \<open>parts\<close> so far\<close>
  "transcript_parts parts [] = parts"
| "transcript_parts parts (sn # sns) =
     (let t = strip (or_empty (snippet_text sn))
      in if t \<noteq> [] then transcript_parts (parts @ [t]) sns else transcript_parts parts sns)"

text \<open>
  The four \<open>except\<close> clauses of \<open>get_transcript\<close> are the four \<open>Inl\<close> cases, in the order
  of the source. The constructor of the API object and the loop over the snippets stand
  outside the \<open>try\<close> block; they have no failing branch here (a snippet's \<open>text\<close> is a
  string or absent).
\<close>

definition get_transcript :: "world \<Rightarrow> string \<Rightarrow> exn + string option" where
  "get_transcript w vid =
     (case transcript_fetch w vid of
        Inl NoTranscriptFound \<Rightarrow> Inr None
      | Inl TranscriptsDisabled \<Rightarrow> Inr None
      | Inl VideoUnavailable \<Rightarrow> Inr None
      | Inl exc \<Rightarrow> Inr None
      | Inr snippets \<Rightarrow>
          (let joined = join '' '' (transcript_parts [] snippets)
           in Inr (if joined \<noteq> [] then Some joined else None)))"

subsection \<open>Channel videos\<close>

fun attach_transcripts :: "world \<Rightarrow> VideoEntry list \<Rightarrow> exn + VideoEntry list" where
  \<comment> \<open>the \<open>for video in videos\<close> loop, which sets \<open>video.transcript\<close> in place\<close>
  "attach_transcripts w [] = Inr []"
| "attach_transcripts w (v # vs) =
     (case get_transcript w (video_id v) of
        Inl exc \<Rightarrow> Inl exc
      | Inr t \<Rightarrow>
          (case attach_transcripts w vs of
             Inl exc \<Rightarrow> Inl exc
           | Inr vs' \<Rightarrow> Inr (v\<lparr>transcript := t\<rparr> # vs')))"

definition fetch_channel_videos ::
  "world \<Rightarrow> string \<Rightarrow> datetime option \<Rightarrow> bool \<Rightarrow> int \<Rightarrow> exn + VideoEntry list" where
  "fetch_channel_videos w channel_input since include_transcripts max_results =
     (case fst (resolve_channel_id w channel_input []) of
        Inl exc \<Rightarrow> Inl exc
      | Inr channel_id \<Rightarrow>
          (case fetch_videos w channel_id since max_results of
             Inl exc \<Rightarrow> Inl exc
           | Inr videos \<Rightarrow>
               if include_transcripts then attach_transcripts w videos else Inr videos))"

section \<open>The runner (\<open>runner.py\<close>, \<open>config/sources.py\<close>)\<close>

text \<open>
  A source descriptor is the dictionary of \<open>sources.py\<close> with its keys \<open>name\<close>, \<open>url\<close> and
  \<open>fetcher\<close>. The module-level tables the runner reads (the three source lists and the two
  dispatch tables) are the fields of \<open>config\<close>, so that the runner is defined for every
  configuration; \<open>repo_config\<close> is the one in the repository.
\<close>

record source =
  source_name :: string
  source_url :: string
  source_fetcher :: string

type_synonym rss_fetcher = "world \<Rightarrow> datetime option \<Rightarrow> exn + entry list"
type_synonym newsletter_fetcher = "world \<Rightarrow> exn + entry list"

record config =
  YOUTUBE_CHANNELS :: "string list"
  RSS_SOURCES :: "source list"
  NEWSLETTER_SOURCES :: "source list"
  RSS_FETCHERS :: "string \<rightharpoonup> rss_fetcher"
  NEWSLETTER_FETCHERS :: "string \<rightharpoonup> newsletter_fetcher"

definition repo_config :: config where
  "repo_config =
     \<lparr>YOUTUBE_CHANNELS = [''@Fireship''],
      RSS_SOURCES =
        [\<lparr>source_name = ''openai_news'', source_url = ''https://openai.com/news/rss.xml'',
          source_fetcher = ''openai_news''\<rparr>],
      NEWSLETTER_SOURCES =
        [\<lparr>source_name = ''smol_ai'', source_url = ''https://news.smol.ai/rss.xml'',
          source_fetcher = ''smol_ai''\<rparr>],
      RSS_FETCHERS =
        [''openai_news'' \<mapsto> (\<lambda>w since. map_sum id (map OpenAINews) (fetch_openai_news w since))],
      NEWSLETTER_FETCHERS =
        [''smol_ai'' \<mapsto> (\<lambda>w. map_sum id (map SmolAI) (fetch_latest_smol_ai_issue w))]\<rparr>"

text \<open>
  Each of the three loops of \<open>run_all_fetchers\<close> carries \<open>all_entries\<close>; a \<open>try\<close> block that
  raises leaves it as it was.
\<close>

fun youtube_loop :: "world \<Rightarrow> datetime \<Rightarrow> entry list \<Rightarrow> string list \<Rightarrow> entry list" where
  "youtube_loop w cutoff all_entries [] = all_entries"
| "youtube_loop w cutoff all_entries (channel # cs) =
     (case fetch_channel_videos w channel (Some cutoff) True max_results_default of
        Inr videos \<Rightarrow> youtube_loop w cutoff (all_entries @ map Video videos) cs
      | Inl exc \<Rightarrow> youtube_loop w cutoff all_entries cs)"

fun rss_loop ::
  "(string \<rightharpoonup> rss_fetcher) \<Rightarrow> world \<Rightarrow> datetime \<Rightarrow> entry list \<Rightarrow> source list \<Rightarrow> entry list" where
  "rss_loop fetchers w cutoff all_entries [] = all_entries"
| "rss_loop fetchers w cutoff all_entries (src # ss) =
     (case fetchers (source_fetcher src) of
        None \<Rightarrow> rss_loop fetchers w cutoff all_entries ss
      | Some fetcher_fn \<Rightarrow>
          (case fetcher_fn w (Some cutoff) of
             Inr es \<Rightarrow> rss_loop fetchers w cutoff (all_entries @ es) ss
           | Inl exc \<Rightarrow> rss_loop fetchers w cutoff all_entries ss))"

fun newsletter_loop ::
  "(string \<rightharpoonup> newsletter_fetcher) \<Rightarrow> world \<Rightarrow> entry list \<Rightarrow> source list \<Rightarrow> entry list" where
  "newsletter_loop fetchers w all_entries [] = all_entries"
| "newsletter_loop fetchers w all_entries (src # ss) =
     (case fetchers (source_fetcher src) of
        None \<Rightarrow> newsletter_loop fetchers w all_entries ss
      | Some fetcher_fn \<Rightarrow>
          (case fetcher_fn w of
             Inr es \<Rightarrow> newsletter_loop fetchers w (all_entries @ es) ss
           | Inl exc \<Rightarrow> newsletter_loop fetchers w all_entries ss))"

definition cutoff_of :: "world \<Rightarrow> int \<Rightarrow> datetime" where
  \<comment> \<open>\<open>datetime.now(tz=timezone.utc) - timedelta(hours=hours)\<close>\<close>
  "cutoff_of w hours = now w - hours * 3600000000"

definition run_all_fetchers :: "config \<Rightarrow> world \<Rightarrow> int \<Rightarrow> entry list" where
  "run_all_fetchers cfg w hours =
     (let cutoff = cutoff_of w hours;
          all_entries = [];
          all_entries = youtube_loop w cutoff all_entries (YOUTUBE_CHANNELS cfg);
          all_entries = rss_loop (RSS_FETCHERS cfg) w cutoff all_entries (RSS_SOURCES cfg);
          all_entries = newsletter_loop (NEWSLETTER_FETCHERS cfg) w all_entries (NEWSLETTER_SOURCES cfg)
      in all_entries)"

definition returned :: "exn + 'a list \<Rightarrow> 'a list" where
  \<comment> \<open>what one \<open>try\<close> block of the runner adds to \<open>all_entries\<close>\<close>
  "returned r = (case r of Inl exc \<Rightarrow> [] | Inr es \<Rightarrow> es)"

section \<open>Example inputs\<close>

definition offline :: world where
  \<comment> \<open>no feed, no page and no transcript can be fetched\<close>
  "offline =
     \<lparr>feed_parse = (\<lambda>u. Inl (OtherException ''unreachable'')),
      http_get = (\<lambda>u. Inl (RequestError ''unreachable'')),
      transcript_fetch = (\<lambda>v. Inl NoTranscriptFound),
      now = 1000,
      parsedate_to_datetime = (\<lambda>s. None),
      soup = html_parser\<rparr>"

definition serve :: "string \<Rightarrow> feed \<Rightarrow> world \<Rightarrow> world" where
  \<comment> \<open>the same world, with feed \<open>f\<close> at URL \<open>u\<close>\<close>
  "serve u f w = w\<lparr>feed_parse := (feed_parse w)(u := Inr f)\<rparr>"

definition plain_item :: "string \<Rightarrow> datetime \<Rightarrow> string \<Rightarrow> item" where
  "plain_item n t s =
     \<lparr>link = Some (''https://example.org/'' @ n), item_title = Some n,
      published_parsed = Some t, published = None, summary = Some s, item_content = [],
      yt_videoid = Some n, media_description = None\<rparr>"

definition well_formed :: "item list \<Rightarrow> feed" where
  "well_formed is = \<lparr>bozo = False, entries = is\<rparr>"

definition newest_first :: "item list" where
  "newest_first =
     [plain_item ''a'' 300 ''<p>first</p>'', plain_item ''b'' 200 ''<p>second</p>'',
      plain_item ''c'' 100 ''<p>third</p>'']"

definition out_of_order :: "item list" where
  "out_of_order =
     [plain_item ''b'' 200 ''second'', plain_item ''a'' 300 ''first'',
      plain_item ''c'' 100 ''third'']"

definition recent_beyond_cap :: "item list" where
  "recent_beyond_cap =
     [plain_item ''x'' 100 ''old'', plain_item ''y'' 150 ''older'',
      plain_item ''z'' 900 ''recent'']"

definition some_channel :: string where
  "some_channel = ''UCabcdefghijklmnopqrstuv''"

definition channel_page :: string where
  \<comment> \<open>a channel page with its canonical link\<close>
  "channel_page =
     ''<link rel=canonical href=https://www.youtube.com/channel/UCabcdefghijklmnopqrstuv>''"

definition with_page :: "string \<Rightarrow> string \<Rightarrow> world \<Rightarrow> world" where
  \<comment> \<open>the same world, with the page \<open>body\<close> at URL \<open>u\<close>\<close>
  "with_page u body w = w\<lparr>http_get := (http_get w)(u := Inr body)\<rparr>"

definition late_after_stop :: "item list" where
  \<comment> \<open>two recent items, an old one, and a recent one behind it\<close>
  "late_after_stop =
     [plain_item ''a'' 300 ''first'', plain_item ''d'' 250 ''fourth'',
      plain_item ''b'' 200 ''second'', plain_item ''z'' 900 ''last'']"

definition captions :: "snippet list" where
  "captions =
     [\<lparr>snippet_text = Some '' hello ''\<rparr>, \<lparr>snippet_text = None\<rparr>,
      \<lparr>snippet_text = Some '' ''\<rparr>, \<lparr>snippet_text = Some ''world''\<rparr>]"

definition markup_only :: item where
  \<comment> \<open>a post whose summary is an image and nothing else\<close>
  "markup_only = plain_item ''post'' 300 ''<img src=a.png>''"

definition failing_rss_config :: config where
  \<comment> \<open>the repository's configuration, with an RSS fetcher that raises\<close>
  "failing_rss_config =
     repo_config\<lparr>RSS_FETCHERS := [''openai_news'' \<mapsto> (\<lambda>w since. Inl (OtherException ''boom''))]\<rparr>"

section \<open>Properties of the loops\<close>

lemma openai_loop_takeWhile:
  "openai_loop w since acc xs =
     acc @ map (openai_entry w) (takeWhile (\<lambda>i. \<not> not_after (parse_pubdate w i) since) xs)"
  by (induction xs arbitrary: acc) auto

lemma video_loop_filter:
  "video_loop w since acc xs =
     acc @ map (video_entry w) (filter (\<lambda>i. \<not> not_after (video_published_at_of w i) since) xs)"
  by (induction xs arbitrary: acc) auto

lemma transcript_parts_filter:
  "transcript_parts acc sns =
     acc @ filter (\<lambda>t. t \<noteq> []) (map (\<lambda>sn. strip (or_empty (snippet_text sn))) sns)"
  by (induction sns arbitrary: acc) (auto simp: Let_def)

lemma join_empty_iff: "\<forall>p\<in>set ps. p \<noteq> [] \<Longrightarrow> join sep ps = [] \<longleftrightarrow> ps = []"
  by (induction sep ps rule: join.induct) auto

lemma youtube_loop_concat:
  "youtube_loop w c acc chans =
     acc @ concat (map (\<lambda>ch. map Video
             (returned (fetch_channel_videos w ch (Some c) True max_results_default))) chans)"
  by (induction chans arbitrary: acc) (auto simp: returned_def split: sum.splits)

lemma rss_loop_concat:
  "rss_loop fs w c acc ss =
     acc @ concat (map (\<lambda>s. case fs (source_fetcher s) of
                               None \<Rightarrow> [] | Some f \<Rightarrow> returned (f w (Some c))) ss)"
  by (induction ss arbitrary: acc) (auto simp: returned_def split: sum.splits option.splits)

lemma newsletter_loop_concat:
  "newsletter_loop fs w acc ss =
     acc @ concat (map (\<lambda>s. case fs (source_fetcher s) of
                               None \<Rightarrow> [] | Some f \<Rightarrow> returned (f w)) ss)"
  by (induction ss arbitrary: acc) (auto simp: returned_def split: sum.splits option.splits)

section \<open>Properties of \<open>strip\<close>\<close>

lemma id_char_not_space: "id_char c \<Longrightarrow> \<not> py_isspace c"
  by (auto simp: id_char_def py_isspace_def py_isalnum_def Let_def)

lemma strip_id:
  assumes "s \<noteq> []" and "\<not> py_isspace (hd s)" and "\<not> py_isspace (last s)"
  shows "strip s = s"
proof -
  from assms(1,2) have "dropWhile py_isspace s = s" by (cases s) auto
  moreover from assms(1,3) have "dropWhile py_isspace (rev s) = rev s"
    by (cases "rev s") (auto simp: hd_rev)
  ultimately show ?thesis by (simp add: strip_def)
qed

lemma strip_at: "strip (CHR ''@'' # h) = CHR ''@'' # rev (dropWhile py_isspace (rev h))"
  by (simp add: strip_def py_isspace_def dropWhile_append3)

lemma match_strip:
  assumes "CHANNEL_ID_RE_match s" and "length s = 24"
  shows "strip s = s"
proof -
  from assms(2) have ne: "s \<noteq> []" by auto
  from assms have "hd s = CHR ''U''"
    by (cases s) (auto simp: CHANNEL_ID_RE_match_def startswith_def Let_def)
  then have h: "\<not> py_isspace (hd s)"
    by (simp add: py_isspace_def)
  from assms have ids: "list_all id_char (drop 2 s)"
    by (simp add: CHANNEL_ID_RE_match_def startswith_def Let_def)
  from assms(2) have "drop 2 s \<noteq> []" and "last (drop 2 s) = last s"
    by simp_all
  with ids have "id_char (last s)"
    by (metis last_in_set list_all_iff)
  then have l: "\<not> py_isspace (last s)"
    by (rule id_char_not_space)
  from ne h l show ?thesis by (rule strip_id)
qed

section \<open>Channel pages\<close>

lemma scrape_channel_id_reply:
  "scrape_channel_id w u requested =
     ((case http_get w u of
         Inl (HTTPStatusError code) \<Rightarrow> Inl (ValueError u)
       | Inl (RequestError msg) \<Rightarrow> Inl (ValueError u)
       | Inl exc \<Rightarrow> Inl exc
       | Inr response_text \<Rightarrow>
           (case search_channel_id response_text of
              Some m \<Rightarrow> Inr m
            | None \<Rightarrow> Inl (ValueError u))),
      requested @ [u])"
  by (simp add: scrape_channel_id_def httpx_get_def split: sum.split exn.split option.split)

section \<open>Optional fields\<close>

text \<open>
  The video path tests for emptiness after it has stripped or joined the text, so a
  \<open>description\<close> or a \<open>transcript\<close> is never the empty string. The two feed fetchers test
  the raw summary and sanitize afterwards: their \<open>content\<close> is the empty string exactly when
  a non-empty summary sanitizes to nothing.
\<close>

lemma video_description_not_empty: "video_description i \<noteq> Some []"
  by (simp add: video_description_def Let_def)

lemma video_loop_description:
  "\<forall>v \<in> set acc. description v \<noteq> Some [] \<Longrightarrow>
   \<forall>v \<in> set (video_loop w since acc xs). description v \<noteq> Some []"
  by (auto simp: video_loop_filter video_entry_def video_description_not_empty Let_def)

lemma get_transcript_not_empty: "get_transcript w vid \<noteq> Inr (Some [])"
  by (simp add: get_transcript_def Let_def split: sum.split exn.split)

lemma attach_transcripts_not_empty:
  "attach_transcripts w vs = Inr vs' \<Longrightarrow> \<forall>v \<in> set vs'. transcript v \<noteq> Some []"
proof (induction vs arbitrary: vs')
  case Nil
  then show ?case by simp
next
  case (Cons v vs)
  then show ?case
    using get_transcript_not_empty [of w "video_id v"]
    by (auto split: sum.splits)
qed

lemma attach_transcripts_description:
  "attach_transcripts w vs = Inr vs' \<Longrightarrow> map description vs' = map description vs"
  by (induction vs arbitrary: vs') (auto split: sum.splits)

lemma openai_content_empty_iff:
  "content (openai_entry w i) = Some [] \<longleftrightarrow>
     or_empty (summary i) \<noteq> [] \<and> strip_html (soup w) (or_empty (summary i)) = []"
  by (simp add: openai_entry_def sanitized_def Let_def)

lemma smol_content_empty_iff:
  "content (smol_entry w i) = Some [] \<longleftrightarrow>
     smol_raw_content i \<noteq> [] \<and> strip_html (soup w) (smol_raw_content i) = []"
  by (simp add: smol_entry_def sanitized_def Let_def)


lemma fetch_videos_optional_fields:
  assumes "fetch_videos w channel_id since max_results = Inr vs" and "v \<in> set vs"
  shows "description v \<noteq> Some [] \<and> transcript v = None"
  using assms
  by (auto simp: fetch_videos_def video_loop_filter video_entry_def video_description_not_empty
      Let_def split: sum.splits if_splits)

lemma fetch_channel_videos_optional_fields:
  assumes "fetch_channel_videos w channel_input since include_transcripts max_results = Inr vs"
    and "v \<in> set vs"
  shows "description v \<noteq> Some [] \<and> transcript v \<noteq> Some []"
proof -
  from assms(1) obtain cid vs0 where f: "fetch_videos w cid since max_results = Inr vs0"
    and a: "if include_transcripts then attach_transcripts w vs0 = Inr vs else vs = vs0"
    by (auto simp: fetch_channel_videos_def split: sum.splits if_splits)
  show ?thesis
  proof (cases include_transcripts)
    case True
    with a have at: "attach_transcripts w vs0 = Inr vs" by simp
    from attach_transcripts_description [OF at] assms(2)
    have "description v \<in> set (map description vs0)"
      by (metis image_eqI list.set_map)
    with f have "description v \<noteq> Some []"
      by (auto dest: fetch_videos_optional_fields)
    with attach_transcripts_not_empty [OF at] assms(2) show ?thesis
      by simp
  next
    case False
    with a assms(2) have "v \<in> set vs0" by simp
    with f show ?thesis
      by (auto dest: fetch_videos_optional_fields)
  qed
qed

section \<open>The claims\<close>

text \<open>
  C1. \<open>fetch_openai_news\<close> with a cutoff stops at the first item whose \<open>published_at\<close> is
  not after the cutoff. For every feed and every cutoff the result is the entries of the
  items before the first one with \<open>published_at \<le> since\<close>, in feed order: the items in
  front of it are all returned, that item and whatever follows it are not, however recent
  the items behind it are. On a feed of three items dated \<open>t0 > t1 > t2\<close> with
  \<open>since = t1\<close> this is exactly the entry of the item dated \<open>t0\<close>.
\<close>

theorem fetch_openai_news_stops_at_cutoff:
  assumes "feed_parse w OPENAI_FEED_URL = Inr f"
  shows "fetch_openai_news w (Some since) =
           Inr (map (openai_entry w) (takeWhile (\<lambda>i. since < parse_pubdate w i) (entries f)))
         \<and> (\<forall>front b behind.
               entries f = front @ b # behind
               \<and> (\<forall>i \<in> set front. since < parse_pubdate w i) \<and> parse_pubdate w b \<le> since
               \<longrightarrow> fetch_openai_news w (Some since) = Inr (map (openai_entry w) front))
         \<and> (\<forall>a b c.
               entries f = [a, b, c] \<and> parse_pubdate w b < parse_pubdate w a
               \<and> parse_pubdate w c < parse_pubdate w b \<and> since = parse_pubdate w b
               \<longrightarrow> fetch_openai_news w (Some since) = Inr [openai_entry w a]
                   \<and> published_at (openai_entry w a) = parse_pubdate w a)"
proof -
  let ?newer = "\<lambda>i. since < parse_pubdate w i"
  have nf: "(\<lambda>i. \<not> not_after (parse_pubdate w i) (Some since)) = ?newer"
    by (auto simp: not_after_def)
  from assms have general:
    "fetch_openai_news w (Some since) = Inr (map (openai_entry w) (takeWhile ?newer (entries f)))"
    by (simp add: fetch_openai_news_def openai_loop_takeWhile nf)
  have stop: "fetch_openai_news w (Some since) = Inr (map (openai_entry w) front)"
    if "entries f = front @ b # behind" and "\<forall>i \<in> set front. since < parse_pubdate w i"
      and "parse_pubdate w b \<le> since" for front b behind
  proof -
    from that(2,3) have "takeWhile ?newer (front @ b # behind) = front"
      by (simp add: takeWhile_append2)
    with general that(1) show ?thesis by simp
  qed
  have three: "fetch_openai_news w (Some since) = Inr [openai_entry w a]
               \<and> published_at (openai_entry w a) = parse_pubdate w a"
    if "entries f = [a, b, c]" and "parse_pubdate w b < parse_pubdate w a"
      and "since = parse_pubdate w b" for a b c
    using general that by (simp add: openai_entry_def Let_def)
  from general stop three show ?thesis
    by blast
qed

theorem fetch_openai_news_stops_at_cutoff_witness:
  "fetch_openai_news (serve OPENAI_FEED_URL (well_formed newest_first) offline) (Some 200) =
     Inr [\<lparr>post_id = ''https://example.org/a'', title = ''a'', url = ''https://example.org/a'',
           published_at = 300, content = Some ''first''\<rparr>]
   \<and> fetch_openai_news (serve OPENAI_FEED_URL (well_formed late_after_stop) offline) (Some 200) =
     Inr [\<lparr>post_id = ''https://example.org/a'', title = ''a'', url = ''https://example.org/a'',
           published_at = 300, content = Some ''first''\<rparr>,
          \<lparr>post_id = ''https://example.org/d'', title = ''d'', url = ''https://example.org/d'',
           published_at = 250, content = Some ''fourth''\<rparr>]
   \<and> fetch_openai_news (serve OPENAI_FEED_URL (well_formed out_of_order) offline) (Some 200) =
     Inr []"
proof -
  let ?w1 = "serve OPENAI_FEED_URL (well_formed newest_first) offline"
  let ?w2 = "serve OPENAI_FEED_URL (well_formed late_after_stop) offline"
  let ?w3 = "serve OPENAI_FEED_URL (well_formed out_of_order) offline"
  have s: "strip_html html_parser ''<p>first</p>'' = ''first''"
    "strip_html html_parser ''first'' = ''first''"
    "strip_html html_parser ''fourth'' = ''fourth''"
    by code_simp+
  have t: "strip ''a'' = ''a''" "strip ''d'' = ''d''"
    by code_simp+
  have p1: "feed_parse ?w1 OPENAI_FEED_URL = Inr (well_formed newest_first)"
    and p2: "feed_parse ?w2 OPENAI_FEED_URL = Inr (well_formed late_after_stop)"
    and p3: "feed_parse ?w3 OPENAI_FEED_URL = Inr (well_formed out_of_order)"
    by (simp_all add: serve_def)
  from fetch_openai_news_stops_at_cutoff [OF p1, of 200]
  have "fetch_openai_news ?w1 (Some 200) =
          Inr (map (openai_entry ?w1)
                 (takeWhile (\<lambda>i. 200 < parse_pubdate ?w1 i) (entries (well_formed newest_first))))"
    by blast
  then have 1: "fetch_openai_news ?w1 (Some 200) =
     Inr [\<lparr>post_id = ''https://example.org/a'', title = ''a'', url = ''https://example.org/a'',
           published_at = 300, content = Some ''first''\<rparr>]"
    by (simp add: well_formed_def newest_first_def plain_item_def parse_pubdate_def
        openai_entry_def sanitized_def or_empty_def serve_def offline_def Let_def s t)
  from fetch_openai_news_stops_at_cutoff [OF p2, of 200]
  have "fetch_openai_news ?w2 (Some 200) =
          Inr (map (openai_entry ?w2)
                 (takeWhile (\<lambda>i. 200 < parse_pubdate ?w2 i) (entries (well_formed late_after_stop))))"
    by blast
  then have 2: "fetch_openai_news ?w2 (Some 200) =
     Inr [\<lparr>post_id = ''https://example.org/a'', title = ''a'', url = ''https://example.org/a'',
           published_at = 300, content = Some ''first''\<rparr>,
          \<lparr>post_id = ''https://example.org/d'', title = ''d'', url = ''https://example.org/d'',
           published_at = 250, content = Some ''fourth''\<rparr>]"
    by (simp add: well_formed_def late_after_stop_def plain_item_def parse_pubdate_def
        openai_entry_def sanitized_def or_empty_def serve_def offline_def Let_def s t)
  from fetch_openai_news_stops_at_cutoff [OF p3, of 200]
  have "fetch_openai_news ?w3 (Some 200) =
          Inr (map (openai_entry ?w3)
                 (takeWhile (\<lambda>i. 200 < parse_pubdate ?w3 i) (entries (well_formed out_of_order))))"
    by blast
  then have 3: "fetch_openai_news ?w3 (Some 200) = Inr []"
    by (simp add: well_formed_def out_of_order_def plain_item_def parse_pubdate_def)
  from 1 2 3 show ?thesis
    by simp
qed



text \<open>
  C3. In \<open>fetch_videos\<close> the cap cuts the feed before the cutoff is applied: when the
  feed has more than \<open>max_results\<close> items and each of its first \<open>max_results\<close> items has
  \<open>published_at \<le> since\<close>, the result is the empty list, whatever the items beyond the cap
  are.
\<close>

theorem fetch_videos_cap_before_filter:
  assumes "feed_parse w (RSS_URL channel_id) = Inr f"
    and "0 \<le> max_results" and "nat max_results < length (entries f)"
    and "\<forall>i \<in> set (take (nat max_results) (entries f)). video_published_at_of w i \<le> since"
  shows "fetch_videos w channel_id (Some since) max_results = Inr []"
proof -
  from assms(3) have "entries f \<noteq> []" by auto
  moreover have "filter (\<lambda>i. \<not> not_after (video_published_at_of w i) (Some since))
                   (take (nat max_results) (entries f)) = []"
    using assms(4) by (simp add: not_after_def filter_empty_conv)
  ultimately show ?thesis
    using assms(1,2) by (simp add: fetch_videos_def video_loop_filter slice_to_def)
qed

theorem fetch_videos_cap_before_filter_witness:
  "fetch_videos (serve (RSS_URL some_channel) (well_formed recent_beyond_cap) offline)
     some_channel (Some 500) 2 = Inr []
   \<and> 500 < video_published_at_of offline (recent_beyond_cap ! 2)"
proof -
  let ?w = "serve (RSS_URL some_channel) (well_formed recent_beyond_cap) offline"
  have p: "feed_parse ?w (RSS_URL some_channel) = Inr (well_formed recent_beyond_cap)"
    by (simp add: serve_def)
  have l: "nat 2 < length (entries (well_formed recent_beyond_cap))"
    by (simp add: well_formed_def recent_beyond_cap_def)
  have o: "\<forall>i \<in> set (take (nat 2) (entries (well_formed recent_beyond_cap))).
             video_published_at_of ?w i \<le> 500"
    by (simp add: well_formed_def recent_beyond_cap_def video_published_at_of_def
        plain_item_def numeral_2_eq_2)
  have "500 < video_published_at_of offline (recent_beyond_cap ! 2)"
    by (simp add: recent_beyond_cap_def video_published_at_of_def plain_item_def)
  with fetch_videos_cap_before_filter [OF p _ l o] show ?thesis
    by simp
qed

text \<open>
  C4. \<open>resolve_channel_id\<close> returns an input that matches the channel-ID pattern and is
  24 characters long unchanged and requests no page: the list of requested pages stays as
  it was, in every world. For an input that starts with \<open>@\<close> it fetches exactly one page,
  the channel page of the stripped handle: that one request is added to the list, the
  reply to it decides the result (the channel ID found in the body, or an error), and no
  other page has any influence.
\<close>

theorem resolve_channel_id_page_fetches:
  "(CHANNEL_ID_RE_match s \<and> length s = 24 \<longrightarrow>
      resolve_channel_id w s requested = (Inr s, requested))
   \<and> (startswith s ''@'' \<longrightarrow>
        (let page_url = ''https://www.youtube.com/'' @ strip s
         in snd (resolve_channel_id w s requested) = requested @ [page_url]
            \<and> (\<forall>body m. http_get w page_url = Inr body \<and> search_channel_id body = Some m \<longrightarrow>
                  fst (resolve_channel_id w s requested) = Inr m)
            \<and> (\<forall>body. http_get w page_url = Inr body \<and> search_channel_id body = None \<longrightarrow>
                  fst (resolve_channel_id w s requested) = Inl (ValueError page_url))
            \<and> (\<forall>exc. http_get w page_url = Inl exc \<longrightarrow>
                  (\<exists>e. fst (resolve_channel_id w s requested) = Inl e))
            \<and> (\<forall>w'. http_get w' page_url = http_get w page_url \<longrightarrow>
                  resolve_channel_id w' s requested = resolve_channel_id w s requested)))"
proof (intro conjI impI)
  assume "CHANNEL_ID_RE_match s \<and> length s = 24"
  then show "resolve_channel_id w s requested = (Inr s, requested)"
    by (simp add: resolve_channel_id_def match_strip)
next
  assume "startswith s ''@''"
  then obtain h where s: "s = CHR ''@'' # h"
    by (cases s) (auto simp: startswith_def)
  let ?u = "''https://www.youtube.com/'' @ strip s"
  have nomatch: "\<not> CHANNEL_ID_RE_match (strip s)"
    by (simp add: s strip_at CHANNEL_ID_RE_match_def startswith_def)
  have at: "startswith (strip s) ''@''"
    by (simp add: s strip_at startswith_def)
  have r: "resolve_channel_id v s requested = scrape_channel_id v ?u requested" for v
    using nomatch at by (simp add: resolve_channel_id_def Let_def)
  have log: "snd (scrape_channel_id w ?u requested) = requested @ [?u]"
    by (simp add: scrape_channel_id_reply)
  have found: "fst (scrape_channel_id w ?u requested) = Inr m"
    if "http_get w ?u = Inr body" and "search_channel_id body = Some m" for body m
    using that by (simp add: scrape_channel_id_reply)
  have missing: "fst (scrape_channel_id w ?u requested) = Inl (ValueError ?u)"
    if "http_get w ?u = Inr body" and "search_channel_id body = None" for body
    using that by (simp add: scrape_channel_id_reply)
  have failed: "\<exists>e. fst (scrape_channel_id w ?u requested) = Inl e"
    if "http_get w ?u = Inl exc" for exc
    using that by (simp add: scrape_channel_id_reply split: exn.split)
  have only: "scrape_channel_id w' ?u requested = scrape_channel_id w ?u requested"
    if "http_get w' ?u = http_get w ?u" for w'
    using that by (simp add: scrape_channel_id_reply)
  from log found missing failed only
  show "let page_url = ?u
        in snd (resolve_channel_id w s requested) = requested @ [page_url]
            \<and> (\<forall>body m. http_get w page_url = Inr body \<and> search_channel_id body = Some m \<longrightarrow>
                  fst (resolve_channel_id w s requested) = Inr m)
            \<and> (\<forall>body. http_get w page_url = Inr body \<and> search_channel_id body = None \<longrightarrow>
                  fst (resolve_channel_id w s requested) = Inl (ValueError page_url))
            \<and> (\<forall>exc. http_get w page_url = Inl exc \<longrightarrow>
                  (\<exists>e. fst (resolve_channel_id w s requested) = Inl e))
            \<and> (\<forall>w'. http_get w' page_url = http_get w page_url \<longrightarrow>
                  resolve_channel_id w' s requested = resolve_channel_id w s requested)"
    unfolding Let_def r by blast
qed

theorem resolve_channel_id_page_fetches_witness:
  "resolve_channel_id offline ''UCabcdefghijklmnopqrstuv'' [] = (Inr ''UCabcdefghijklmnopqrstuv'', [])
   \<and> resolve_channel_id (with_page ''https://www.youtube.com/@SomeHandle'' channel_page offline)
        ''@SomeHandle'' [] =
       (Inr ''UCabcdefghijklmnopqrstuv'', [''https://www.youtube.com/@SomeHandle''])
   \<and> resolve_channel_id (with_page ''https://www.youtube.com/@SomeHandle'' ''<html></html>'' offline)
        ''@SomeHandle'' [] =
       (Inl (ValueError ''https://www.youtube.com/@SomeHandle''),
        [''https://www.youtube.com/@SomeHandle''])"
proof -
  let ?u = "''https://www.youtube.com/@SomeHandle''"
  let ?w1 = "with_page ?u channel_page offline"
  let ?w2 = "with_page ?u ''<html></html>'' offline"
  have m: "CHANNEL_ID_RE_match ''UCabcdefghijklmnopqrstuv'' \<and> length ''UCabcdefghijklmnopqrstuv'' = 24"
    by code_simp
  have a: "startswith ''@SomeHandle'' ''@''"
    by code_simp
  have t: "''https://www.youtube.com/'' @ strip ''@SomeHandle'' = ?u"
    by code_simp
  have g1: "http_get ?w1 ?u = Inr channel_page"
    and g2: "http_get ?w2 ?u = Inr ''<html></html>''"
    by (simp_all add: with_page_def)
  have f1: "search_channel_id channel_page = Some ''UCabcdefghijklmnopqrstuv''"
    and f2: "search_channel_id ''<html></html>'' = None"
    by code_simp+
  from resolve_channel_id_page_fetches [of "''UCabcdefghijklmnopqrstuv''" offline "[]"] m
  have 0: "resolve_channel_id offline ''UCabcdefghijklmnopqrstuv'' [] =
             (Inr ''UCabcdefghijklmnopqrstuv'', [])"
    by (rule conjunct1 [THEN mp])
  note h1 = resolve_channel_id_page_fetches [of "''@SomeHandle''" ?w1 "[]",
      THEN conjunct2, THEN mp, OF a, unfolded Let_def t]
  from h1 have "snd (resolve_channel_id ?w1 ''@SomeHandle'' []) = [] @ [?u]"
    by (rule conjunct1)
  moreover from h1 [THEN conjunct2, THEN conjunct1] g1 f1
  have "fst (resolve_channel_id ?w1 ''@SomeHandle'' []) = Inr ''UCabcdefghijklmnopqrstuv''"
    by (simp only: simp_thms)
  ultimately have 1: "resolve_channel_id ?w1 ''@SomeHandle'' [] =
                        (Inr ''UCabcdefghijklmnopqrstuv'', [?u])"
    by (simp only: prod_eq_iff fst_conv snd_conv append_Nil simp_thms)
  note h2 = resolve_channel_id_page_fetches [of "''@SomeHandle''" ?w2 "[]",
      THEN conjunct2, THEN mp, OF a, unfolded Let_def t]
  from h2 have "snd (resolve_channel_id ?w2 ''@SomeHandle'' []) = [] @ [?u]"
    by (rule conjunct1)
  moreover from h2 [THEN conjunct2, THEN conjunct2, THEN conjunct1] g2 f2
  have "fst (resolve_channel_id ?w2 ''@SomeHandle'' []) = Inl (ValueError ?u)"
    by (simp only: simp_thms)
  ultimately have 2: "resolve_channel_id ?w2 ''@SomeHandle'' [] = (Inl (ValueError ?u), [?u])"
    by (simp only: prod_eq_iff fst_conv snd_conv append_Nil simp_thms)
  from 0 1 2 show ?thesis
    by (simp only: simp_thms)
qed

text \<open>
  C5, as the spec states it: sanitizing
  \<open><p>Hello &amp; <b>world</b></p>\<close> followed by two spaces, four newlines and \<open>Bye\<close>
  yields \<open>Hello & world\<close>, two newlines, \<open>Bye\<close>. It does not.
\<close>

theorem strip_html_example_counterexample:
  "strip_html html_parser
     ''<p>Hello &amp; <b>world</b></p>  \<newline>\<newline>\<newline>\<newline>Bye''
   \<noteq> ''Hello & world\<newline>\<newline>Bye''"
  by code_simp

text \<open>
  C5, amended: the sanitizer returns \<open>Hello & world\<close>, one space, two newlines, \<open>Bye\<close>.
  Tags are removed, the entity is decoded, each run of blanks becomes one space, the four
  newlines become two, and both ends are trimmed; the space that the run of blanks before
  the newlines collapses to stays where it is.
\<close>

theorem strip_html_example:
  "strip_html html_parser
     ''<p>Hello &amp; <b>world</b></p>  \<newline>\<newline>\<newline>\<newline>Bye''
   = ''Hello & world \<newline>\<newline>Bye''"
  by code_simp

text \<open>
  C6. \<open>get_transcript\<close> never raises: it always returns; every exception of the
  transcript backend gives \<open>None\<close>; on success the result is the non-empty stripped
  snippet texts joined by single spaces, or \<open>None\<close> when there is none; it is never the
  empty string.
\<close>

theorem get_transcript_never_raises:
  "(\<exists>r. get_transcript w vid = Inr r)
   \<and> get_transcript w vid \<noteq> Inr (Some [])
   \<and> (\<forall>exc. transcript_fetch w vid = Inl exc \<longrightarrow> get_transcript w vid = Inr None)
   \<and> (\<forall>snippets. transcript_fetch w vid = Inr snippets \<longrightarrow>
         get_transcript w vid =
           Inr (let parts = filter (\<lambda>t. t \<noteq> [])
                              (map (\<lambda>sn. strip (or_empty (snippet_text sn))) snippets)
                in if parts = [] then None else Some (join '' '' parts)))"
proof (intro conjI allI impI)
  show "\<exists>r. get_transcript w vid = Inr r"
    by (simp add: get_transcript_def Let_def split: sum.split exn.split)
next
  show "get_transcript w vid \<noteq> Inr (Some [])"
    by (simp add: get_transcript_def Let_def split: sum.split exn.split)
next
  fix exc assume "transcript_fetch w vid = Inl exc"
  then show "get_transcript w vid = Inr None"
    by (simp add: get_transcript_def split: exn.split)
next
  fix snippets assume "transcript_fetch w vid = Inr snippets"
  then show "get_transcript w vid =
           Inr (let parts = filter (\<lambda>t. t \<noteq> [])
                              (map (\<lambda>sn. strip (or_empty (snippet_text sn))) snippets)
                in if parts = [] then None else Some (join '' '' parts))"
    by (simp add: get_transcript_def Let_def transcript_parts_filter join_empty_iff)
qed

theorem get_transcript_never_raises_witness:
  "get_transcript offline ''G2Ec3h5CfA8'' = Inr None
   \<and> get_transcript (offline\<lparr>transcript_fetch := (\<lambda>v. Inl (OtherException ''timeout''))\<rparr>)
        ''G2Ec3h5CfA8'' = Inr None
   \<and> get_transcript (offline\<lparr>transcript_fetch := (\<lambda>v. Inr captions)\<rparr>) ''G2Ec3h5CfA8'' =
       Inr (Some ''hello world'')
   \<and> get_transcript (offline\<lparr>transcript_fetch := (\<lambda>v. Inr [\<lparr>snippet_text = Some '' ''\<rparr>])\<rparr>)
        ''G2Ec3h5CfA8'' = Inr None"
proof -
  let ?v = "''G2Ec3h5CfA8''"
  let ?w1 = "offline\<lparr>transcript_fetch := (\<lambda>v. Inl (OtherException ''timeout''))\<rparr>"
  let ?w2 = "offline\<lparr>transcript_fetch := (\<lambda>v. Inr captions)\<rparr>"
  let ?w3 = "offline\<lparr>transcript_fetch := (\<lambda>v. Inr [\<lparr>snippet_text = Some '' ''\<rparr>])\<rparr>"
  have s: "strip '' hello '' = ''hello''" "strip '' '' = []" "strip [] = []"
    "strip ''world'' = ''world''"
    by code_simp+
  have "transcript_fetch offline ?v = Inl NoTranscriptFound"
    by (simp add: offline_def)
  with get_transcript_never_raises [of offline ?v]
  have 0: "get_transcript offline ?v = Inr None"
    by blast
  have "transcript_fetch ?w1 ?v = Inl (OtherException ''timeout'')"
    by simp
  with get_transcript_never_raises [of ?w1 ?v]
  have 1: "get_transcript ?w1 ?v = Inr None"
    by blast
  have "transcript_fetch ?w2 ?v = Inr captions"
    by simp
  with get_transcript_never_raises [of ?w2 ?v]
  have "get_transcript ?w2 ?v =
          Inr (let parts = filter (\<lambda>t. t \<noteq> [])
                             (map (\<lambda>sn. strip (or_empty (snippet_text sn))) captions)
               in if parts = [] then None else Some (join '' '' parts))"
    by blast
  then have 2: "get_transcript ?w2 ?v = Inr (Some ''hello world'')"
    by (simp add: captions_def or_empty_def s)
  have "transcript_fetch ?w3 ?v = Inr [\<lparr>snippet_text = Some '' ''\<rparr>]"
    by simp
  with get_transcript_never_raises [of ?w3 ?v]
  have "get_transcript ?w3 ?v =
          Inr (let parts = filter (\<lambda>t. t \<noteq> [])
                             (map (\<lambda>sn. strip (or_empty (snippet_text sn)))
                                [\<lparr>snippet_text = Some '' ''\<rparr>])
               in if parts = [] then None else Some (join '' '' parts))"
    by blast
  then have 3: "get_transcript ?w3 ?v = Inr None"
    by (simp add: or_empty_def s)
  from 0 1 2 3 show ?thesis
    by simp
qed

text \<open>
  C7. \<open>fetch_videos\<close> raises exactly when parsing the feed raises or the parsed feed is
  flagged \<open>bozo\<close> and has no entries, and what it raises then is a \<open>RuntimeError\<close>; in
  every other case, a well-formed feed without entries among them, it returns a list.
\<close>

theorem fetch_videos_raises_iff:
  "((\<exists>e. fetch_videos w channel_id since max_results = Inl e) \<longleftrightarrow>
      (\<exists>exc. feed_parse w (RSS_URL channel_id) = Inl exc)
      \<or> (\<exists>f. feed_parse w (RSS_URL channel_id) = Inr f \<and> bozo f \<and> entries f = []))
   \<and> (\<forall>e. fetch_videos w channel_id since max_results = Inl e \<longrightarrow> e = RuntimeError channel_id)
   \<and> (\<forall>f. feed_parse w (RSS_URL channel_id) = Inr f \<and> \<not> bozo f \<and> entries f = [] \<longrightarrow>
         fetch_videos w channel_id since max_results = Inr [])"
  by (auto simp: fetch_videos_def slice_to_def split: sum.splits if_splits)

theorem fetch_videos_raises_iff_witness:
  "fetch_videos offline some_channel None max_results_default = Inl (RuntimeError some_channel)
   \<and> fetch_videos (serve (RSS_URL some_channel) \<lparr>bozo = True, entries = []\<rparr> offline)
        some_channel None max_results_default = Inl (RuntimeError some_channel)
   \<and> fetch_videos (serve (RSS_URL some_channel) (well_formed []) offline)
        some_channel None max_results_default = Inr []"
proof -
  let ?m = max_results_default
  let ?w1 = "serve (RSS_URL some_channel) \<lparr>bozo = True, entries = []\<rparr> offline"
  let ?w2 = "serve (RSS_URL some_channel) (well_formed []) offline"
  have "feed_parse offline (RSS_URL some_channel) = Inl (OtherException ''unreachable'')"
    by (simp add: offline_def)
  with fetch_videos_raises_iff [of offline some_channel None ?m]
  have 0: "fetch_videos offline some_channel None ?m = Inl (RuntimeError some_channel)"
    by blast
  have "feed_parse ?w1 (RSS_URL some_channel) = Inr \<lparr>bozo = True, entries = []\<rparr>"
    by (simp add: serve_def)
  with fetch_videos_raises_iff [of ?w1 some_channel None ?m]
  have 1: "fetch_videos ?w1 some_channel None ?m = Inl (RuntimeError some_channel)"
    by (metis feed.select_convs(1,2))
  have "feed_parse ?w2 (RSS_URL some_channel) = Inr (well_formed [])"
    and "\<not> bozo (well_formed [])" and "entries (well_formed []) = []"
    by (simp_all add: serve_def well_formed_def)
  with fetch_videos_raises_iff [of ?w2 some_channel None ?m]
  have 2: "fetch_videos ?w2 some_channel None ?m = Inr []"
    by blast
  from 0 1 2 show ?thesis
    by simp
qed

text \<open>
  C8. The RSS news fetcher and the newsletter fetcher do not raise on a feed failure:
  when parsing the feed raises, or the parsed feed has no entries, \<open>fetch_openai_news\<close>
  and \<open>fetch_latest_smol_ai_issue\<close> each return the empty list.
\<close>

theorem rss_and_newsletter_return_empty_on_feed_failure:
  "((\<exists>exc. feed_parse w OPENAI_FEED_URL = Inl exc)
      \<or> (\<exists>f. feed_parse w OPENAI_FEED_URL = Inr f \<and> entries f = [])
     \<longrightarrow> fetch_openai_news w since = Inr [])
   \<and> ((\<exists>exc. feed_parse w SMOL_FEED_URL = Inl exc)
      \<or> (\<exists>f. feed_parse w SMOL_FEED_URL = Inr f \<and> entries f = [])
     \<longrightarrow> fetch_latest_smol_ai_issue w = Inr [])"
  by (auto simp: fetch_openai_news_def fetch_latest_smol_ai_issue_def)

theorem rss_and_newsletter_return_empty_on_feed_failure_witness:
  "fetch_openai_news offline (Some 200) = Inr []
   \<and> fetch_latest_smol_ai_issue offline = Inr []
   \<and> fetch_openai_news (serve OPENAI_FEED_URL \<lparr>bozo = True, entries = []\<rparr> offline) None = Inr []
   \<and> fetch_latest_smol_ai_issue (serve SMOL_FEED_URL (well_formed []) offline) = Inr []"
proof -
  let ?w1 = "serve OPENAI_FEED_URL \<lparr>bozo = True, entries = []\<rparr> offline"
  let ?w2 = "serve SMOL_FEED_URL (well_formed []) offline"
  have "feed_parse offline OPENAI_FEED_URL = Inl (OtherException ''unreachable'')"
    and "feed_parse offline SMOL_FEED_URL = Inl (OtherException ''unreachable'')"
    by (simp_all add: offline_def)
  with rss_and_newsletter_return_empty_on_feed_failure [of offline "Some 200"]
  have 0: "fetch_openai_news offline (Some 200) = Inr []"
    and 1: "fetch_latest_smol_ai_issue offline = Inr []"
    by blast+
  have "feed_parse ?w1 OPENAI_FEED_URL = Inr \<lparr>bozo = True, entries = []\<rparr>"
    by (simp add: serve_def)
  with rss_and_newsletter_return_empty_on_feed_failure [of ?w1 None]
  have 2: "fetch_openai_news ?w1 None = Inr []"
    by (metis feed.select_convs(2))
  have "feed_parse ?w2 SMOL_FEED_URL = Inr (well_formed [])" and "entries (well_formed []) = []"
    by (simp_all add: serve_def well_formed_def)
  with rss_and_newsletter_return_empty_on_feed_failure [of ?w2]
  have 3: "fetch_latest_smol_ai_issue ?w2 = Inr []"
    by blast
  from 0 1 2 3 show ?thesis
    by simp
qed

text \<open>
  C9 says that no entry carries the empty string in \<open>content\<close>, \<open>description\<close> or
  \<open>transcript\<close>. The two feed fetchers test the summary for emptiness before they sanitize
  it, not after: for a post whose summary is markup without text (here one image tag)
  both return an entry whose \<open>content\<close> is the empty string.
\<close>

theorem content_is_empty_string_for_markup_only_summary:
  "fetch_openai_news (serve OPENAI_FEED_URL (well_formed [markup_only]) offline) None =
     Inr [\<lparr>post_id = ''https://example.org/post'', title = ''post'',
           url = ''https://example.org/post'', published_at = 300, content = Some ''''\<rparr>]
   \<and> fetch_latest_smol_ai_issue (serve SMOL_FEED_URL (well_formed [markup_only]) offline) =
     Inr [\<lparr>post_id = ''https://example.org/post'', title = ''post'',
           url = ''https://example.org/post'', published_at = 300, content = Some ''''\<rparr>]"
proof -
  have s: "strip_html html_parser ''<img src=a.png>'' = []"
    by code_simp
  have t: "strip ''post'' = ''post''"
    by code_simp
  show ?thesis
    by (simp add: fetch_openai_news_def fetch_latest_smol_ai_issue_def serve_def offline_def
        well_formed_def markup_only_def plain_item_def openai_entry_def smol_entry_def
        smol_raw_content_def sanitized_def parse_pubdate_def or_empty_def not_after_def
        Let_def s t)
qed

text \<open>
  C10. \<open>run_all_fetchers\<close> isolates the failure of a source: the aggregated result is
  the concatenation, in source order (channels, then RSS sources, then newsletters), of
  the lists returned by the fetcher invocations that did not raise; an invocation that
  raises, like a source with no registered fetcher, adds nothing and stops nothing.
\<close>

theorem run_all_fetchers_isolates_failures:
  "run_all_fetchers cfg w hours =
     concat (map (\<lambda>ch. map Video (returned
               (fetch_channel_videos w ch (Some (cutoff_of w hours)) True max_results_default)))
             (YOUTUBE_CHANNELS cfg))
     @ concat (map (\<lambda>s. case RSS_FETCHERS cfg (source_fetcher s) of
                           None \<Rightarrow> []
                         | Some f \<Rightarrow> returned (f w (Some (cutoff_of w hours))))
               (RSS_SOURCES cfg))
     @ concat (map (\<lambda>s. case NEWSLETTER_FETCHERS cfg (source_fetcher s) of
                           None \<Rightarrow> []
                         | Some f \<Rightarrow> returned (f w))
               (NEWSLETTER_SOURCES cfg))"
  by (simp add: run_all_fetchers_def Let_def youtube_loop_concat rss_loop_concat
      newsletter_loop_concat)

theorem run_all_fetchers_isolates_failures_witness:
  "fetch_channel_videos (serve SMOL_FEED_URL (well_formed newest_first) offline) ''@Fireship''
     (Some (cutoff_of (serve SMOL_FEED_URL (well_formed newest_first) offline) 24)) True
     max_results_default = Inl (ValueError ''https://www.youtube.com/@Fireship'')
   \<and> run_all_fetchers failing_rss_config
        (serve SMOL_FEED_URL (well_formed newest_first) offline) 24 =
      [SmolAI \<lparr>post_id = ''https://example.org/a'', title = ''a'',
               url = ''https://example.org/a'', published_at = 300, content = Some ''first''\<rparr>]"
proof -
  let ?w = "serve SMOL_FEED_URL (well_formed newest_first) offline"
  have r: "resolve_channel_id ?w ''@Fireship'' [] =
             (Inl (ValueError ''https://www.youtube.com/@Fireship''),
              [''https://www.youtube.com/@Fireship''])"
    by code_simp
  then have y: "fetch_channel_videos ?w ''@Fireship'' (Some (cutoff_of ?w 24)) True
                  max_results_default = Inl (ValueError ''https://www.youtube.com/@Fireship'')"
    by (simp add: fetch_channel_videos_def)
  have n: "fetch_latest_smol_ai_issue ?w =
             Inr [\<lparr>post_id = ''https://example.org/a'', title = ''a'',
                   url = ''https://example.org/a'', published_at = 300,
                   content = Some ''first''\<rparr>]"
    by code_simp
  from run_all_fetchers_isolates_failures [of failing_rss_config ?w 24] y n
  have "run_all_fetchers failing_rss_config ?w 24 =
      [SmolAI \<lparr>post_id = ''https://example.org/a'', title = ''a'',
               url = ''https://example.org/a'', published_at = 300, content = Some ''first''\<rparr>]"
    by (simp add: failing_rss_config_def repo_config_def returned_def)
  with y show ?thesis
    by simp
qed

end
